theory Spec2Isabelle
  imports Main "HOL-Library.Sublist"
begin

section \<open>Data model\<close>

text \<open>
  Python's \<open>str\<close> is a sequence of Unicode code points, and \<open>strip\<close>,
  \<open>startswith\<close> and slicing count code points. A text is therefore a list of code
  points; \<open>lit\<close> turns a literal of the source into one.
\<close>

type_synonym str = "nat list"

definition lit :: "string \<Rightarrow> str" where
  "lit s = map of_char s"

text \<open>
  The values that \<open>request.get_json()\<close>, \<open>json.loads\<close> and \<open>jsonify\<close> exchange.
  Python's \<open>None\<close> is \<open>JNull\<close>, a \<open>dict\<close> is an association list. Numbers are
  integers here: the handlers only test a number for truth. \<open>json.loads\<close> also
  accepts the literals \<open>NaN\<close>, \<open>Infinity\<close> and \<open>-Infinity\<close>, which are not JSON,
  and yields the floats they name.
\<close>

datatype nonfinite = NaN | PlusInfinity | MinusInfinity

datatype json =
    JNull
  | JBool bool
  | JNum int
  | JNonFinite nonfinite
  | JString str
  | JArray "json list"
  | JObject "(str \<times> json) list"

text \<open>Python's truth value of an object, as \<open>not x\<close> and \<open>if x\<close> use it.\<close>

fun truthy :: "json \<Rightarrow> bool" where
  "truthy JNull = False"
| "truthy (JBool b) = b"
| "truthy (JNum n) = (n \<noteq> 0)"
| "truthy (JNonFinite x) = True"
| "truthy (JString s) = (s \<noteq> [])"
| "truthy (JArray xs) = (xs \<noteq> [])"
| "truthy (JObject kvs) = (kvs \<noteq> [])"

text \<open>\<open>d.get(k)\<close> on a dict: the value, or \<open>None\<close> when the key is missing.\<close>

definition dict_get :: "(str \<times> json) list \<Rightarrow> str \<Rightarrow> json" where
  "dict_get kvs k = (case map_of kvs k of None \<Rightarrow> JNull | Some v \<Rightarrow> v)"

text \<open>
  The exceptions that can reach the handler. All of them are instances of Python's
  \<open>Exception\<close>; the constructor \<open>Exception\<close> is a direct \<open>raise Exception(msg)\<close>.
  \<open>FileNotFoundError\<close> and \<open>Exception\<close> carry their message, which is what \<open>str(e)\<close>
  returns. \<open>ServiceError\<close> stands for whatever a client library raises on its own
  when a call to its service fails.
\<close>

datatype error =
    FileNotFoundError str
  | Exception str
  | AttributeError
  | TypeError
  | ValueError
  | JSONDecodeError
  | UnicodeEncodeError
  | ServiceError str

text \<open>
  One call of a client library method that sends a request to an external service.
\<close>

datatype call =
    GetBucket str
  | Exists str
  | DownloadAsText str
  | Delete str
  | GenerateContent str

text \<open>
  A printed line is the sequence of the pieces of its f-string: text (\<open>Txt\<close>), and the
  values of the request (\<open>Val\<close>) and the exceptions (\<open>Err\<close>) interpolated into it,
  which are kept as objects.
\<close>

datatype piece = Txt str | Val json | Err error

text \<open>
  \<open>print\<close> encodes its line for standard output, in UTF-8. A lone surrogate (U+D800 to
  U+DFFF) has no encoding: \<open>print\<close> then raises \<open>UnicodeEncodeError\<close> and writes
  nothing. A value of the request that is text goes into the line as it is, and
  \<open>request.get_json()\<close> yields a lone surrogate from the JSON escape of one (a
  backslash, \<open>u\<close> and \<open>d800\<close>); any other value goes through \<open>repr\<close>, which
  escapes such code points. The text pieces are taken to hold none: they are literals of
  the source, the configured name of the prompt template, names for which
  \<open>blob.exists()\<close> has returned (it encodes the name in UTF-8 for the path of its
  request), and the response of the model. So is the message of an exception.
\<close>

definition is_surrogate :: "nat \<Rightarrow> bool" where
  "is_surrogate c \<longleftrightarrow> 55296 \<le> c \<and> c \<le> 57343"

fun encodable :: "piece \<Rightarrow> bool" where
  "encodable (Val (JString s)) = list_all (\<lambda>c. \<not> is_surrogate c) s"
| "encodable p = True"

text \<open>
  What lies outside the process: the objects of the bucket (name to content), the calls
  made so far to the external services, and the lines printed so far.
\<close>

record world =
  blobs :: "str \<rightharpoonup> str"
  calls :: "call list"
  stdout :: "piece list list"

text \<open>
  A storage client: each call may fail in transport, depending on the calls made before
  it and on the call itself. A generative model: \<open>generate_content(prompt).text\<close>, the
  text of the response or the exception raised on the way to it.
\<close>

record storage =
  fault :: "call list \<Rightarrow> call \<Rightarrow> error option"

record generative_model =
  generate_content :: "str \<Rightarrow> error + str"

text \<open>
  The module globals: the two client handles (\<open>None\<close> when unset), the bucket name from
  the configuration, and \<open>json.loads\<close> of the standard library (\<open>None\<close> when it raises).
\<close>

record globals =
  storage_client :: "storage option"
  gemini_model :: "generative_model option"
  BUCKET_NAME :: str
  json_loads :: "str \<Rightarrow> json option"

text \<open>
  A request is what Flask's \<open>request.get_json()\<close> makes of it: the parsed value, or the
  exception raised for a body that is missing or is not JSON.
\<close>

record request =
  get_json :: "error + json"

type_synonym response = "json \<times> nat"

section \<open>Effects: state passing with exceptions\<close>

type_synonym 'a io = "world \<Rightarrow> (error + 'a) \<times> world"

definition returnE :: "'a \<Rightarrow> 'a io" where
  "returnE x = (\<lambda>w. (Inr x, w))"

definition raise :: "error \<Rightarrow> 'a io" where
  "raise e = (\<lambda>w. (Inl e, w))"

definition bindE :: "'a io \<Rightarrow> ('a \<Rightarrow> 'b io) \<Rightarrow> 'b io" where
  "bindE m f = (\<lambda>w. case m w of (Inl e, w') \<Rightarrow> (Inl e, w') | (Inr x, w') \<Rightarrow> f x w')"

text \<open>\<open>try: m except Exception as e: h(e)\<close>\<close>

definition try_except :: "'a io \<Rightarrow> (error \<Rightarrow> 'a io) \<Rightarrow> 'a io" where
  "try_except m h = (\<lambda>w. case m w of (Inl e, w') \<Rightarrow> h e w' | (Inr x, w') \<Rightarrow> (Inr x, w'))"

text \<open>
  \<open>try: m finally: c\<close>: \<open>c\<close> runs after \<open>m\<close> however \<open>m\<close> ended; an exception
  leaving \<open>c\<close> replaces the outcome of \<open>m\<close>.
\<close>

definition try_finally :: "'a io \<Rightarrow> unit io \<Rightarrow> 'a io" where
  "try_finally m c = (\<lambda>w. case m w of (r, w') \<Rightarrow>
     (case c w' of (Inl e, w'') \<Rightarrow> (Inl e, w'') | (Inr u, w'') \<Rightarrow> (r, w'')))"

text \<open>\<open>print(f"...")\<close>\<close>

definition print_line :: "piece list \<Rightarrow> unit io" where
  "print_line l = (\<lambda>w.
     if list_all encodable l
     then (Inr (), w\<lparr>stdout := stdout w @ [l]\<rparr>)
     else (Inl UnicodeEncodeError, w))"

section \<open>The client libraries\<close>

text \<open>A request to the storage service: recorded, then it fails or goes through.\<close>

definition send :: "storage \<Rightarrow> call \<Rightarrow> unit io" where
  "send sc c = (\<lambda>w.
     ((case fault sc (calls w) c of Some e \<Rightarrow> Inl e | None \<Rightarrow> Inr ()),
      w\<lparr>calls := calls w @ [c]\<rparr>))"

definition get_bucket :: "storage \<Rightarrow> str \<Rightarrow> unit io" where
  "get_bucket sc bucket_name = send sc (GetBucket bucket_name)"

definition blob_exists :: "storage \<Rightarrow> str \<Rightarrow> bool io" where
  "blob_exists sc name = bindE (send sc (Exists name)) (\<lambda>_ w. (Inr (blobs w name \<noteq> None), w))"

definition blob_download_as_text :: "storage \<Rightarrow> str \<Rightarrow> str io" where
  "blob_download_as_text sc name = bindE (send sc (DownloadAsText name)) (\<lambda>_ w.
     (case blobs w name of
        None \<Rightarrow> (Inl (ServiceError (lit ''NotFound'')), w)
      | Some content \<Rightarrow> (Inr content, w)))"

definition blob_delete :: "storage \<Rightarrow> str \<Rightarrow> unit io" where
  "blob_delete sc name = bindE (send sc (Delete name)) (\<lambda>_ w.
     (case blobs w name of
        None \<Rightarrow> (Inl (ServiceError (lit ''NotFound'')), w)
      | Some content \<Rightarrow> (Inr (), w\<lparr>blobs := (blobs w)(name := None)\<rparr>)))"

definition model_generate_content :: "generative_model \<Rightarrow> str \<Rightarrow> str io" where
  "model_generate_content gm prompt = (\<lambda>w.
     (generate_content gm prompt, w\<lparr>calls := calls w @ [GenerateContent prompt]\<rparr>))"

definition outcome :: "error + 'a \<Rightarrow> 'a io" where
  "outcome r = (\<lambda>w. (r, w))"

section \<open>agent.py\<close>

subsection \<open>Module initialization\<close>

text \<open>
  Lines 34 to 42. The three constructions are calls into the client libraries; their
  outcomes are the parameters. The result is the pair of handles
  \<open>(storage_client, gemini_model)\<close>.
\<close>

definition init_clients ::
  "error + storage \<Rightarrow> error + unit \<Rightarrow> error + generative_model
     \<Rightarrow> (storage option \<times> generative_model option) io" where
  "init_clients storage_Client vertexai_init GenerativeModel =
     try_except
       (bindE (outcome storage_Client) (\<lambda>sc.
        bindE (outcome vertexai_init) (\<lambda>_.
        bindE (outcome GenerativeModel) (\<lambda>gm.
        returnE (Some sc, Some gm)))))
       (\<lambda>e. bindE (print_line [Txt (lit ''ERROR: Failed to initialize Google Cloud clients: ''), Err e])
          (\<lambda>_. returnE (None, None)))"

subsection \<open>Helper functions\<close>

text \<open>
  \<open>file_name\<close> is whatever the request held under the key. \<open>bucket.blob(file_name)\<close>
  sends nothing; for a name that is not text it raises \<open>ValueError\<close>.
\<close>

definition download_file_from_gcs :: "globals \<Rightarrow> json \<Rightarrow> str io" where
  "download_file_from_gcs g file_name =
     (case storage_client g of
        None \<Rightarrow> raise (Exception (lit ''Storage client or bucket name not configured.''))
      | Some sc \<Rightarrow>
          if BUCKET_NAME g = []
          then raise (Exception (lit ''Storage client or bucket name not configured.''))
          else
            bindE (get_bucket sc (BUCKET_NAME g)) (\<lambda>bucket.
            case file_name of
              JString name \<Rightarrow>
                bindE (blob_exists sc name) (\<lambda>found.
                if \<not> found
                then raise (FileNotFoundError (lit ''File not found in bucket: '' @ name))
                else
                  bindE (print_line [Txt (lit ''Downloading file: '' @ name)]) (\<lambda>_.
                  blob_download_as_text sc name))
            | _ \<Rightarrow> raise ValueError))"

definition delete_file_from_gcs :: "globals \<Rightarrow> json \<Rightarrow> unit io" where
  "delete_file_from_gcs g file_name =
     (case storage_client g of
        None \<Rightarrow> raise (Exception (lit ''Storage client or bucket name not configured.''))
      | Some sc \<Rightarrow>
          if BUCKET_NAME g = []
          then raise (Exception (lit ''Storage client or bucket name not configured.''))
          else
            bindE (get_bucket sc (BUCKET_NAME g)) (\<lambda>bucket.
            case file_name of
              JString name \<Rightarrow>
                bindE (blob_exists sc name) (\<lambda>found.
                if found
                then
                  bindE (print_line [Txt (lit ''Cleaning up file: '' @ name)]) (\<lambda>_.
                  blob_delete sc name)
                else
                  print_line [Txt (lit ''Warning: File already deleted or never existed: '' @ name)])
            | _ \<Rightarrow> raise ValueError))"

text \<open>
  \<open>str.isspace\<close> of one code point, which is what \<open>str.strip()\<close> removes from both
  ends.
\<close>

definition isspace :: "nat \<Rightarrow> bool" where
  "isspace c \<longleftrightarrow>
     (9 \<le> c \<and> c \<le> 13) \<or> (28 \<le> c \<and> c \<le> 32) \<or> c = 133 \<or> c = 160 \<or> c = 5760 \<or>
     (8192 \<le> c \<and> c \<le> 8202) \<or> c = 8232 \<or> c = 8233 \<or> c = 8239 \<or> c = 8287 \<or> c = 12288"

definition strip :: "str \<Rightarrow> str" where
  "strip s = rev (dropWhile isspace (rev (dropWhile isspace s)))"

text \<open>The f-string of lines 83 to 100, with both contents put in.\<close>

definition prompt :: "str \<Rightarrow> str \<Rightarrow> str" where
  \<open>prompt file1_content file2_content =
     [10] @
     lit ''    You are an expert JSON comparison agent.'' @ [10] @
     lit ''    Analyze the two JSON objects below.'' @ [10] @
     lit ''    Return a JSON object that only describes the differences.'' @ [10] @
     lit ''    If there are no differences, return an empty JSON object {}.'' @ [10] @
     [10] @
     lit ''    File 1:'' @ [10] @
     lit ''    '' @ file1_content @ [10] @
     [10] @
     lit ''    File 2:'' @ [10] @
     lit ''    '' @ file2_content @ [10] @
     [10] @
     lit ''    Respond with only the differences - keys and their values - in JSON format. For example:'' @ [10] @
     lit ''    {'' @ [10] @
     lit ''        "key1": "In file1 is: value_for_key1_in_file1, in file2 is: value_for_key1_in_file2",'' @ [10] @
     lit ''        "key2": "In file1 is: value_for_key2_in_file1, in file2 is: value_for_key2_in_file2",'' @ [10] @
     lit ''    }'' @ [10] @
     lit ''    ''\<close>

text \<open>\<open>raw_text[7:-3]\<close>\<close>

definition slice_7_minus_3 :: "str \<Rightarrow> str" where
  "slice_7_minus_3 s = drop 7 (take (length s - 3) s)"

definition get_gemini_diff :: "globals \<Rightarrow> str \<Rightarrow> str \<Rightarrow> str io" where
  "get_gemini_diff g file1_content file2_content =
     (case gemini_model g of
        None \<Rightarrow> raise (Exception (lit ''Gemini model not initialized.''))
      | Some gm \<Rightarrow>
          bindE (print_line [Txt (lit ''Generating content with Gemini...'')]) (\<lambda>_.
          bindE (model_generate_content gm (prompt file1_content file2_content)) (\<lambda>response_text.
          let raw_text = strip response_text in
          bindE (print_line [Txt (lit ''Clean Gemini response: '' @ raw_text)]) (\<lambda>_.
          returnE (if prefix (lit ''```json'') raw_text
                   then strip (slice_7_minus_3 raw_text)
                   else raw_text)))))"

subsection \<open>The endpoint\<close>

definition jsonify_error :: "str \<Rightarrow> json" where
  "jsonify_error msg = JObject [(lit ''error'', JString msg)]"

definition jsonify_diff :: "json \<Rightarrow> json" where
  "jsonify_diff v = JObject [(lit ''diff'', v)]"

text \<open>
  \<open>try: m except FileNotFoundError as e: h(str(e))\<close>: any other exception passes.
\<close>

definition try_except_FileNotFoundError :: "'a io \<Rightarrow> (str \<Rightarrow> 'a io) \<Rightarrow> 'a io" where
  "try_except_FileNotFoundError m h = (\<lambda>w. case m w of
       (Inl (FileNotFoundError msg), w') \<Rightarrow> h msg w'
     | (Inl e, w') \<Rightarrow> (Inl e, w')
     | (Inr x, w') \<Rightarrow> (Inr x, w'))"

text \<open>
  The inner \<open>try\<close> of lines 131 to 135 either leaves the function with the 404
  response (\<open>Inl\<close>) or binds the two contents (\<open>Inr\<close>).
\<close>

definition download_both :: "globals \<Rightarrow> json \<Rightarrow> json \<Rightarrow> (response + str \<times> str) io" where
  "download_both g file1_name file2_name =
     try_except_FileNotFoundError
       (bindE (download_file_from_gcs g file1_name) (\<lambda>file1_content.
        bindE (download_file_from_gcs g file2_name) (\<lambda>file2_content.
        returnE (Inr (file1_content, file2_content)))))
       (\<lambda>msg. returnE (Inl (jsonify_error msg, 404)))"

text \<open>\<open>data.get\<close> on a value that is not a dict raises \<open>AttributeError\<close>.\<close>

definition handle_diff_request :: "globals \<Rightarrow> request \<Rightarrow> response io" where
  "handle_diff_request g req =
     try_except
       (bindE (outcome (get_json req)) (\<lambda>data.
        case data of
          JObject d \<Rightarrow>
            let file1_name = dict_get d (lit ''file1'');
                file2_name = dict_get d (lit ''file2'')
            in
            if \<not> truthy file1_name \<or> \<not> truthy file2_name
            then returnE (jsonify_error (lit ''Missing 'file1' or 'file2' in request''), 400)
            else
              bindE (download_both g file1_name file2_name) (\<lambda>r.
              case r of
                Inl not_found \<Rightarrow> returnE not_found
              | Inr (file1_content, file2_content) \<Rightarrow>
                  bindE (get_gemini_diff g file1_content file2_content) (\<lambda>diff_result_text.
                  bindE (outcome (case json_loads g diff_result_text of
                                    None \<Rightarrow> Inl JSONDecodeError | Some v \<Rightarrow> Inr v)) (\<lambda>parsed.
                  returnE (jsonify_diff parsed, 200))))
        | _ \<Rightarrow> raise AttributeError))
       (\<lambda>e. bindE (print_line [Txt (lit ''An unexpected error occurred: ''), Err e]) (\<lambda>_.
          returnE (jsonify_error (lit ''An internal server error occurred.''), 500)))"

section \<open>solutions/agent\_clean\_up.py\<close>

text \<open>
  The solution's \<open>download_file_from_gcs\<close> and \<open>delete_file_from_gcs\<close> are those of
  agent.py (the bucket name is read from \<open>GCS_BUCKET_NAME\<close>), and so is the inner
  \<open>try\<close> around the two downloads. Its \<open>get_gemini_diff\<close> does not print the
  response, and its handler returns the text of the diff as it is and has a
  \<open>finally\<close> block.
\<close>

definition get_gemini_diff_clean_up :: "globals \<Rightarrow> str \<Rightarrow> str \<Rightarrow> str io" where
  "get_gemini_diff_clean_up g file1_content file2_content =
     (case gemini_model g of
        None \<Rightarrow> raise (Exception (lit ''Gemini model not initialized.''))
      | Some gm \<Rightarrow>
          bindE (print_line [Txt (lit ''Generating content with Gemini...'')]) (\<lambda>_.
          bindE (model_generate_content gm (prompt file1_content file2_content)) (\<lambda>response_text.
          let raw_text = strip response_text in
          returnE (if prefix (lit ''```json'') raw_text
                   then strip (slice_7_minus_3 raw_text)
                   else raw_text))))"

text \<open>
  The \<open>try\<close> block of lines 107 to 127: its outcome (a returned response or an
  exception, and the world after it) together with the locals \<open>file1_name\<close> and
  \<open>file2_name\<close> as the block leaves them, \<open>None\<close> when it left before the assignments.
\<close>

definition try_block_clean_up ::
  "globals \<Rightarrow> request \<Rightarrow> world \<Rightarrow> ((error + response) \<times> world) \<times> json \<times> json" where
  "try_block_clean_up g req w =
     (case get_json req of
        Inl e \<Rightarrow> ((Inl e, w), JNull, JNull)
      | Inr data \<Rightarrow>
          (case data of
             JObject d \<Rightarrow>
               let file1_name = dict_get d (lit ''file1'');
                   file2_name = dict_get d (lit ''file2'')
               in
               ((if \<not> truthy file1_name \<or> \<not> truthy file2_name
                 then returnE (jsonify_error (lit ''Missing 'file1' or 'file2' in request''), 400)
                 else
                   bindE (download_both g file1_name file2_name) (\<lambda>r.
                   case r of
                     Inl not_found \<Rightarrow> returnE not_found
                   | Inr (file1_content, file2_content) \<Rightarrow>
                       bindE (get_gemini_diff_clean_up g file1_content file2_content)
                         (\<lambda>diff_result_text.
                       returnE (jsonify_diff (JString diff_result_text), 200)))) w,
                file1_name, file2_name)
           | _ \<Rightarrow> ((Inl AttributeError, w), JNull, JNull)))"

text \<open>The \<open>except Exception\<close> clause of lines 129 to 132.\<close>

definition except_block_clean_up :: "error \<Rightarrow> response io" where
  "except_block_clean_up e =
     bindE (print_line [Txt (lit ''An unexpected error occurred: ''), Err e]) (\<lambda>_.
     returnE (jsonify_error (lit ''An internal server error occurred.''), 500))"

text \<open>
  The \<open>finally\<close> block of lines 134 to 147. Its \<open>except\<close> clause prints the two
  names as the request gave them; an exception of that \<open>print\<close> leaves the block.
\<close>

definition finally_block_clean_up :: "globals \<Rightarrow> json \<Rightarrow> json \<Rightarrow> unit io" where
  "finally_block_clean_up g file1_name file2_name =
     bindE (print_line [Txt (lit ''Entering cleanup block...'')]) (\<lambda>_.
     try_except
       (bindE (if truthy file1_name then delete_file_from_gcs g file1_name else returnE ()) (\<lambda>_.
        if truthy file2_name then delete_file_from_gcs g file2_name else returnE ()))
       (\<lambda>e. print_line [Txt (lit ''Warning: Cleanup failed for ''), Val file1_name,
                         Txt (lit '' or ''), Val file2_name, Txt (lit '': ''), Err e]))"

definition handle_diff_request_clean_up :: "globals \<Rightarrow> request \<Rightarrow> response io" where
  "handle_diff_request_clean_up g req = (\<lambda>w.
     case try_block_clean_up g req w of (tried, file1_name, file2_name) \<Rightarrow>
       try_finally
         (try_except (\<lambda>_. tried) except_block_clean_up)
         (finally_block_clean_up g file1_name file2_name) w)"

section \<open>solutions/agent\_external\_prompt.py\<close>

text \<open>
  This variant loads its prompt from the bucket before it reads the request, under the
  name \<open>PROMPT_FILE_PATH\<close> of the configuration (a parameter here). Its helper functions,
  its \<open>except\<close> clause and its \<open>finally\<close> block are those of
  solutions/agent\_clean\_up.py. Its handler calls \<open>get_gemini_diff\<close>, which now takes
  three arguments, with two: once both downloads have succeeded, the call raises
  \<open>TypeError\<close>.
\<close>

definition try_block_external_prompt ::
  "globals \<Rightarrow> str \<Rightarrow> request \<Rightarrow> world \<Rightarrow> ((error + response) \<times> world) \<times> json \<times> json" where
  "try_block_external_prompt g PROMPT_FILE_PATH req w =
     (case bindE (print_line [Txt (lit ''Loading prompt from GCS: '' @ PROMPT_FILE_PATH)])
             (\<lambda>_. download_file_from_gcs g (JString PROMPT_FILE_PATH)) w of
        (Inl (FileNotFoundError msg), w1) \<Rightarrow>
          (bindE (print_line [Txt (lit ''CRITICAL ERROR: Prompt file not found at '' @ PROMPT_FILE_PATH)])
             (\<lambda>_. returnE (jsonify_error (lit ''Configuration error: Prompt template not found.''), 500))
             w1,
           JNull, JNull)
      | (Inl e, w1) \<Rightarrow>
          (bindE (print_line [Txt (lit ''CRITICAL ERROR: Could not load prompt: ''), Err e])
             (\<lambda>_. returnE (jsonify_error (lit ''Configuration error: Could not load prompt.''), 500))
             w1,
           JNull, JNull)
      | (Inr prompt_template, w1) \<Rightarrow>
          (case get_json req of
             Inl e \<Rightarrow> ((Inl e, w1), JNull, JNull)
           | Inr data \<Rightarrow>
               (case data of
                  JObject d \<Rightarrow>
                    let file1_name = dict_get d (lit ''file1'');
                        file2_name = dict_get d (lit ''file2'')
                    in
                    ((if \<not> truthy file1_name \<or> \<not> truthy file2_name
                      then returnE (jsonify_error (lit ''Missing 'file1' or 'file2' in request''), 400)
                      else
                        bindE (download_both g file1_name file2_name) (\<lambda>r.
                        case r of
                          Inl not_found \<Rightarrow> returnE not_found
                        | Inr (file1_content, file2_content) \<Rightarrow> raise TypeError)) w1,
                     file1_name, file2_name)
                | _ \<Rightarrow> ((Inl AttributeError, w1), JNull, JNull))))"

definition handle_diff_request_external_prompt :: "globals \<Rightarrow> str \<Rightarrow> request \<Rightarrow> response io" where
  "handle_diff_request_external_prompt g PROMPT_FILE_PATH req = (\<lambda>w.
     case try_block_external_prompt g PROMPT_FILE_PATH req w of (tried, file1_name, file2_name) \<Rightarrow>
       try_finally
         (try_except (\<lambda>_. tried) except_block_clean_up)
         (finally_block_clean_up g file1_name file2_name) w)"

section \<open>Observations and test fixtures\<close>

text \<open>The calls that delete an object.\<close>

fun is_delete :: "call \<Rightarrow> bool" where
  "is_delete (Delete n) = True"
| "is_delete c = False"

text \<open>
  A computation that deletes nothing: whatever the world, it leaves the objects of the
  bucket as they are and sends no delete call.
\<close>

definition no_deletion :: "'a io \<Rightarrow> bool" where
  "no_deletion m \<longleftrightarrow> (\<forall>w. blobs (snd (m w)) = blobs w \<and>
      filter is_delete (calls (snd (m w))) = filter is_delete (calls w))"

text \<open>
  The mocks of test\_agent.py: a storage client whose calls all go through, one whose
  delete calls fail, a model with a fixed outcome, the bucket with file1.json and
  file2.json, and the request naming them. Beside them: a storage client whose service is
  unavailable, requests that name a missing object, one object, no object, an object
  whose name is a lone surrogate, and a bucket that holds the prompt template of
  solutions/agent\_external\_prompt.py. \<open>test_loads\<close> is \<open>json.loads\<close> on the texts the
  fixtures use.
\<close>

definition reliable_storage :: storage where
  "reliable_storage = \<lparr>fault = (\<lambda>h c. None)\<rparr>"

definition unavailable_storage :: storage where
  "unavailable_storage = \<lparr>fault = (\<lambda>h c. Some (ServiceError (lit ''ServiceUnavailable'')))\<rparr>"

definition failing_delete_storage :: storage where
  "failing_delete_storage =
     \<lparr>fault = (\<lambda>h c. case c of Delete n \<Rightarrow> Some (ServiceError (lit ''ServiceUnavailable''))
                                | _ \<Rightarrow> None)\<rparr>"

definition model_returning :: "error + str \<Rightarrow> generative_model" where
  "model_returning r = \<lparr>generate_content = (\<lambda>p. r)\<rparr>"

definition test_loads :: "str \<Rightarrow> json option" where
  \<open>test_loads s =
     (if s = lit ''{}'' then Some (JObject [])
      else if s = lit ''{"name": {"old": "Gil", "new": "Esti"}}''
      then Some (JObject [(lit ''name'',
             JObject [(lit ''old'', JString (lit ''Gil'')), (lit ''new'', JString (lit ''Esti''))])])
      else if s = lit ''NaN'' then Some (JNonFinite NaN)
      else None)\<close>

definition test_globals :: "storage \<Rightarrow> generative_model \<Rightarrow> globals" where
  "test_globals sc gm =
     \<lparr>storage_client = Some sc, gemini_model = Some gm,
      BUCKET_NAME = lit ''test-bucket'', json_loads = test_loads\<rparr>"

definition test_request :: request where
  "test_request = \<lparr>get_json = Inr (JObject [(lit ''file1'', JString (lit ''file1.json'')),
                                                (lit ''file2'', JString (lit ''file2.json''))])\<rparr>"

definition missing_request :: request where
  "missing_request = \<lparr>get_json = Inr (JObject [(lit ''file1'', JString (lit ''missing.json'')),
                                                   (lit ''file2'', JString (lit ''file2.json''))])\<rparr>"

definition incomplete_request :: request where
  "incomplete_request = \<lparr>get_json = Inr (JObject [(lit ''file1'', JString (lit ''file1.json''))])\<rparr>"

definition empty_request :: request where
  "empty_request = \<lparr>get_json = Inr (JObject [])\<rparr>"

definition surrogate_request :: request where
  "surrogate_request = \<lparr>get_json = Inr (JObject [(lit ''file1'', JString [55296])])\<rparr>"

definition list_request :: request where
  "list_request =
     \<lparr>get_json = Inr (JArray [JString (lit ''file1.json''), JString (lit ''file2.json'')])\<rparr>"

definition test_world :: "str \<Rightarrow> str \<Rightarrow> world" where
  "test_world file1_content file2_content =
     \<lparr>blobs = [lit ''file1.json'' \<mapsto> file1_content, lit ''file2.json'' \<mapsto> file2_content],
      calls = [], stdout = []\<rparr>"

definition prompt_world :: world where
  "prompt_world =
     \<lparr>blobs = [lit ''external_prompt.txt'' \<mapsto> lit ''Compare the two files.''],
      calls = [], stdout = []\<rparr>"

section \<open>Properties\<close>

subsection \<open>Unfolding the effects\<close>

lemmas io_defs = returnE_def raise_def bindE_def try_except_def try_finally_def print_line_def
  outcome_def send_def get_bucket_def blob_exists_def blob_download_as_text_def blob_delete_def
  model_generate_content_def try_except_FileNotFoundError_def

lemmas test_defs = reliable_storage_def failing_delete_storage_def unavailable_storage_def
  model_returning_def test_globals_def test_request_def test_world_def dict_get_def

lemma lit_eq_iff [simp]: "lit a = lit b \<longleftrightarrow> a = b"
  by (simp add: lit_def inj_on_def)

lemma lit_Nil_iff [simp]: "lit a = [] \<longleftrightarrow> a = []"
  by (simp add: lit_def)

subsection \<open>The helper functions with a storage client that goes through\<close>

lemma download_found:
  assumes "storage_client g = Some sc" "fault sc = (\<lambda>h c. None)" "BUCKET_NAME g \<noteq> []"
    "blobs w n = Some content"
  shows "download_file_from_gcs g (JString n) w =
    (Inr content, w\<lparr>calls := calls w @ [GetBucket (BUCKET_NAME g), Exists n, DownloadAsText n],
                     stdout := stdout w @ [[Txt (lit ''Downloading file: '' @ n)]]\<rparr>)"
  using assms by (simp add: download_file_from_gcs_def io_defs)

lemma download_missing:
  assumes "storage_client g = Some sc" "fault sc = (\<lambda>h c. None)" "BUCKET_NAME g \<noteq> []"
    "blobs w n = None"
  shows "download_file_from_gcs g (JString n) w =
    (Inl (FileNotFoundError (lit ''File not found in bucket: '' @ n)),
     w\<lparr>calls := calls w @ [GetBucket (BUCKET_NAME g), Exists n]\<rparr>)"
  using assms by (simp add: download_file_from_gcs_def io_defs)

lemma delete_found:
  assumes "storage_client g = Some sc" "fault sc = (\<lambda>h c. None)" "BUCKET_NAME g \<noteq> []"
    "blobs w n = Some content"
  shows "delete_file_from_gcs g (JString n) w =
    (Inr (), w\<lparr>blobs := (blobs w)(n := None),
                calls := calls w @ [GetBucket (BUCKET_NAME g), Exists n, Delete n],
                stdout := stdout w @ [[Txt (lit ''Cleaning up file: '' @ n)]]\<rparr>)"
  using assms by (simp add: delete_file_from_gcs_def io_defs)

lemma delete_missing:
  assumes "storage_client g = Some sc" "fault sc = (\<lambda>h c. None)" "BUCKET_NAME g \<noteq> []"
    "blobs w n = None"
  shows "delete_file_from_gcs g (JString n) w =
    (Inr (), w\<lparr>calls := calls w @ [GetBucket (BUCKET_NAME g), Exists n],
                stdout := stdout w @
                  [[Txt (lit ''Warning: File already deleted or never existed: '' @ n)]]\<rparr>)"
  using assms by (simp add: delete_file_from_gcs_def io_defs)

subsection \<open>Stripping the response\<close>

lemma strip_unchanged:
  assumes "s \<noteq> []" "\<not> isspace (hd s)" "\<not> isspace (last s)"
  shows "strip s = s"
proof -
  from assms have a: "dropWhile isspace s = s" by (cases s) simp_all
  from assms have "rev s \<noteq> []" "\<not> isspace (hd (rev s))" by (simp_all add: hd_rev)
  then have "dropWhile isspace (rev s) = rev s" by (cases "rev s") simp_all
  with a show ?thesis by (simp add: strip_def)
qed

lemma strip_length: "length (strip s) \<le> length s"
proof -
  have "length (dropWhile isspace (rev (dropWhile isspace s))) \<le> length (rev (dropWhile isspace s))"
    by (rule length_dropWhile_le)
  also have "\<dots> \<le> length s" by (simp add: length_dropWhile_le)
  finally show ?thesis by (simp add: strip_def)
qed

lemma fence_length [simp]: "length (lit ''```json'') = 7" "length (lit ''```'') = 3"
  by (simp_all add: lit_def)

lemma strip_fenced: "strip (lit ''```json'' @ R @ lit ''```'') = lit ''```json'' @ R @ lit ''```''"
  by (rule strip_unchanged) (simp_all add: lit_def isspace_def)

lemma slice_fenced: "slice_7_minus_3 (lit ''```json'' @ R @ lit ''```'') = R"
  by (simp add: slice_7_minus_3_def)

lemma get_gemini_diff_returns:
  assumes "gemini_model g = Some gm" "generate_content gm (prompt c1 c2) = Inr R"
  shows "fst (get_gemini_diff g c1 c2 w) =
           Inr (if prefix (lit ''```json'') (strip R)
                then strip (slice_7_minus_3 (strip R)) else strip R)"
  using assms by (simp add: get_gemini_diff_def io_defs Let_def)

text \<open>
  A response that is itself fenced loses its own fence when it comes alone, and keeps it
  when it comes inside another fence: the two diffs then differ.
\<close>

lemma fenced_response_differs:
  assumes "gemini_model g = Some gm" "generate_content gm (prompt c1 c2) = Inr R"
    and "gemini_model g' = Some gm'"
    and "generate_content gm' (prompt c1 c2) = Inr (lit ''```json'' @ R @ lit ''```'')"
    and "prefix (lit ''```json'') (strip R)"
  shows "fst (get_gemini_diff g' c1 c2 w) \<noteq> fst (get_gemini_diff g c1 c2 w)"
proof -
  have l: "7 \<le> length (strip R)" using assms(5) prefix_length_le by fastforce
  have "length (strip (slice_7_minus_3 (strip R))) \<le> length (slice_7_minus_3 (strip R))"
    by (rule strip_length)
  also have "\<dots> < length (strip R)" using l by (simp add: slice_7_minus_3_def)
  finally have "strip (slice_7_minus_3 (strip R)) \<noteq> strip R" by auto
  with assms show ?thesis
    by (simp add: get_gemini_diff_returns strip_fenced slice_fenced)
qed

subsection \<open>agent.py deletes nothing\<close>

lemma no_deletion_returnE: "no_deletion (returnE x)"
  by (simp add: no_deletion_def returnE_def)

lemma no_deletion_raise: "no_deletion (raise e)"
  by (simp add: no_deletion_def raise_def)

lemma no_deletion_outcome: "no_deletion (outcome r)"
  by (simp add: no_deletion_def outcome_def)

lemma no_deletion_print_line: "no_deletion (print_line l)"
  by (simp add: no_deletion_def print_line_def)

lemma no_deletion_bindE:
  assumes "no_deletion m" "\<And>x. no_deletion (f x)"
  shows "no_deletion (bindE m f)"
  unfolding no_deletion_def
proof
  fix w
  obtain r w' where mw: "m w = (r, w')" by (cases "m w")
  with assms(1) have k: "blobs w' = blobs w"
      "filter is_delete (calls w') = filter is_delete (calls w)"
    by (auto simp add: no_deletion_def dest: spec [of _ w])
  show "blobs (snd (bindE m f w)) = blobs w \<and>
        filter is_delete (calls (snd (bindE m f w))) = filter is_delete (calls w)"
  proof (cases r)
    case (Inl e)
    with mw k show ?thesis by (simp add: bindE_def)
  next
    case (Inr x)
    from assms(2) [of x] have "blobs (snd (f x w')) = blobs w'"
      "filter is_delete (calls (snd (f x w'))) = filter is_delete (calls w')"
      by (simp_all add: no_deletion_def)
    with Inr mw k show ?thesis by (simp add: bindE_def)
  qed
qed

lemma no_deletion_try_except:
  assumes "no_deletion m" "\<And>e. no_deletion (h e)"
  shows "no_deletion (try_except m h)"
  unfolding no_deletion_def
proof
  fix w
  obtain r w' where mw: "m w = (r, w')" by (cases "m w")
  with assms(1) have k: "blobs w' = blobs w"
      "filter is_delete (calls w') = filter is_delete (calls w)"
    by (auto simp add: no_deletion_def dest: spec [of _ w])
  show "blobs (snd (try_except m h w)) = blobs w \<and>
        filter is_delete (calls (snd (try_except m h w))) = filter is_delete (calls w)"
  proof (cases r)
    case (Inr x)
    with mw k show ?thesis by (simp add: try_except_def)
  next
    case (Inl e)
    from assms(2) [of e] have "blobs (snd (h e w')) = blobs w'"
      "filter is_delete (calls (snd (h e w'))) = filter is_delete (calls w')"
      by (simp_all add: no_deletion_def)
    with Inl mw k show ?thesis by (simp add: try_except_def)
  qed
qed

lemma no_deletion_try_except_FileNotFoundError:
  assumes "no_deletion m" "\<And>msg. no_deletion (h msg)"
  shows "no_deletion (try_except_FileNotFoundError m h)"
  unfolding no_deletion_def
proof
  fix w
  obtain r w' where mw: "m w = (r, w')" by (cases "m w")
  with assms(1) have k: "blobs w' = blobs w"
      "filter is_delete (calls w') = filter is_delete (calls w)"
    by (auto simp add: no_deletion_def dest: spec [of _ w])
  have h: "blobs (snd (h msg w')) = blobs w'"
      "filter is_delete (calls (snd (h msg w'))) = filter is_delete (calls w')" for msg
    using assms(2) [of msg] by (simp_all add: no_deletion_def)
  show "blobs (snd (try_except_FileNotFoundError m h w)) = blobs w \<and>
        filter is_delete (calls (snd (try_except_FileNotFoundError m h w))) =
          filter is_delete (calls w)"
  proof (cases r)
    case (Inr x)
    with mw k show ?thesis by (simp add: try_except_FileNotFoundError_def)
  next
    case (Inl e)
    with mw k h show ?thesis by (cases e) (simp_all add: try_except_FileNotFoundError_def)
  qed
qed

lemma no_deletion_download: "no_deletion (download_file_from_gcs g n)"
  unfolding no_deletion_def
  by (auto simp add: download_file_from_gcs_def io_defs split: option.splits json.splits)

lemma no_deletion_get_gemini_diff: "no_deletion (get_gemini_diff g a b)"
  unfolding no_deletion_def
  by (auto simp add: get_gemini_diff_def io_defs Let_def split: option.splits sum.splits)

lemma no_deletion_download_both: "no_deletion (download_both g a b)"
  unfolding download_both_def
  by (intro no_deletion_try_except_FileNotFoundError no_deletion_bindE no_deletion_download
        no_deletion_returnE)

text \<open>
  Whatever the request, the clients and the world, the handler of agent.py deletes no
  object and sends no delete call: it has no cleanup step.
\<close>

lemma agent_py_never_deletes: "no_deletion (handle_diff_request g req)"
  unfolding handle_diff_request_def Let_def
  by (intro no_deletion_try_except no_deletion_bindE no_deletion_outcome no_deletion_returnE
        no_deletion_print_line)
     (auto intro!: no_deletion_bindE no_deletion_returnE no_deletion_raise no_deletion_outcome
        no_deletion_download_both no_deletion_get_gemini_diff
        split: json.splits sum.splits prod.splits)

subsection \<open>The solution's handler\<close>

text \<open>
  When both names can be printed, the \<open>finally\<close> block returns normally whatever its
  deletions do.
\<close>

lemma finally_block_returns:
  assumes "encodable (Val file1_name)" "encodable (Val file2_name)"
  shows "\<exists>w'. finally_block_clean_up g file1_name file2_name w = (Inr (), w')"
  using assms
  by (simp add: finally_block_clean_up_def bindE_def print_line_def try_except_def
           split: prod.splits sum.splits)

text \<open>
  With both objects there and a model call that throws, the solution's handler answers
  500 and deletes each object once.
\<close>

lemma clean_up_model_failure_cleans:
  assumes "storage_client g = Some sc" "fault sc = (\<lambda>h c. None)" "BUCKET_NAME g \<noteq> []"
    and "get_json req = Inr (JObject d)"
    and "dict_get d (lit ''file1'') = JString n1" "n1 \<noteq> []"
    and "dict_get d (lit ''file2'') = JString n2" "n2 \<noteq> []" "n1 \<noteq> n2"
    and "blobs w n1 = Some c1" "blobs w n2 = Some c2"
    and "gemini_model g = Some gm" "generate_content gm (prompt c1 c2) = Inl e"
  shows "handle_diff_request_clean_up g req w =
     (Inr (jsonify_error (lit ''An internal server error occurred.''), 500),
      w\<lparr>blobs := (blobs w)(n1 := None, n2 := None),
        calls := calls w @
          [GetBucket (BUCKET_NAME g), Exists n1, DownloadAsText n1,
           GetBucket (BUCKET_NAME g), Exists n2, DownloadAsText n2,
           GenerateContent (prompt c1 c2),
           GetBucket (BUCKET_NAME g), Exists n1, Delete n1,
           GetBucket (BUCKET_NAME g), Exists n2, Delete n2],
        stdout := stdout w @
          [[Txt (lit ''Downloading file: '' @ n1)], [Txt (lit ''Downloading file: '' @ n2)],
           [Txt (lit ''Generating content with Gemini...'')],
           [Txt (lit ''An unexpected error occurred: ''), Err e],
           [Txt (lit ''Entering cleanup block...'')],
           [Txt (lit ''Cleaning up file: '' @ n1)], [Txt (lit ''Cleaning up file: '' @ n2)]]\<rparr>)"
  using assms
  by (simp add: handle_diff_request_clean_up_def try_block_clean_up_def except_block_clean_up_def
        finally_block_clean_up_def download_both_def download_found delete_found
        get_gemini_diff_clean_up_def io_defs Let_def)

text \<open>
  On success the solution's handler puts the text of the diff into the body, unparsed.
\<close>

lemma clean_up_success_returns_text:
  assumes "storage_client g = Some sc" "fault sc = (\<lambda>h c. None)" "BUCKET_NAME g \<noteq> []"
    and "get_json req = Inr (JObject d)"
    and "dict_get d (lit ''file1'') = JString n1" "n1 \<noteq> []"
    and "dict_get d (lit ''file2'') = JString n2" "n2 \<noteq> []" "n1 \<noteq> n2"
    and "blobs w n1 = Some c1" "blobs w n2 = Some c2"
    and "gemini_model g = Some gm" "generate_content gm (prompt c1 c2) = Inr R"
  shows "fst (handle_diff_request_clean_up g req w) =
     Inr (jsonify_diff (JString (if prefix (lit ''```json'') (strip R)
                                  then strip (slice_7_minus_3 (strip R)) else strip R)), 200)"
  using assms
  by (simp add: handle_diff_request_clean_up_def try_block_clean_up_def except_block_clean_up_def
        finally_block_clean_up_def download_both_def download_found delete_found
        get_gemini_diff_clean_up_def io_defs Let_def)

text \<open>
  After a 404 for the first object, the solution's \<open>finally\<close> block still runs: it asks
  for both objects again and deletes the second one.
\<close>

lemma clean_up_404_still_deletes:
  assumes "storage_client g = Some sc" "fault sc = (\<lambda>h c. None)" "BUCKET_NAME g \<noteq> []"
    and "get_json req = Inr (JObject d)"
    and "dict_get d (lit ''file1'') = JString n1" "n1 \<noteq> []"
    and "dict_get d (lit ''file2'') = JString n2" "n2 \<noteq> []"
    and "blobs w n1 = None" "blobs w n2 = Some c2"
  shows "handle_diff_request_clean_up g req w =
     (Inr (jsonify_error (lit ''File not found in bucket: '' @ n1), 404),
      w\<lparr>blobs := (blobs w)(n2 := None),
        calls := calls w @
          [GetBucket (BUCKET_NAME g), Exists n1,
           GetBucket (BUCKET_NAME g), Exists n1,
           GetBucket (BUCKET_NAME g), Exists n2, Delete n2],
        stdout := stdout w @
          [[Txt (lit ''Entering cleanup block...'')],
           [Txt (lit ''Warning: File already deleted or never existed: '' @ n1)],
           [Txt (lit ''Cleaning up file: '' @ n2)]]\<rparr>)"
  using assms
  by (simp add: handle_diff_request_clean_up_def try_block_clean_up_def except_block_clean_up_def
        finally_block_clean_up_def download_both_def download_missing delete_found delete_missing
        io_defs Let_def)

text \<open>
  A request that gives \<open>file1\<close> only is answered with 400 by the solution's handler,
  whose \<open>finally\<close> block then deletes that object.
\<close>

lemma clean_up_400_still_deletes:
  assumes "storage_client g = Some sc" "fault sc = (\<lambda>h c. None)" "BUCKET_NAME g \<noteq> []"
    and "get_json req = Inr (JObject d)"
    and "dict_get d (lit ''file1'') = JString n1" "n1 \<noteq> []"
    and "\<not> truthy (dict_get d (lit ''file2''))"
    and "blobs w n1 = Some c1"
  shows "handle_diff_request_clean_up g req w =
     (Inr (jsonify_error (lit ''Missing 'file1' or 'file2' in request''), 400),
      w\<lparr>blobs := (blobs w)(n1 := None),
        calls := calls w @ [GetBucket (BUCKET_NAME g), Exists n1, Delete n1],
        stdout := stdout w @
          [[Txt (lit ''Entering cleanup block...'')], [Txt (lit ''Cleaning up file: '' @ n1)]]\<rparr>)"
  using assms
  by (simp add: handle_diff_request_clean_up_def try_block_clean_up_def except_block_clean_up_def
        finally_block_clean_up_def delete_found io_defs Let_def)

text \<open>
  The handler of solutions/agent\_external\_prompt.py has downloaded its prompt from the
  bucket by the time it answers 400.
\<close>

lemma external_prompt_400_after_download:
  assumes "storage_client g = Some sc" "fault sc = (\<lambda>h c. None)" "BUCKET_NAME g \<noteq> []"
    and "blobs w PROMPT_FILE_PATH = Some prompt_template"
    and "get_json req = Inr (JObject d)"
    and "\<not> truthy (dict_get d (lit ''file1''))" "\<not> truthy (dict_get d (lit ''file2''))"
  shows "handle_diff_request_external_prompt g PROMPT_FILE_PATH req w =
     (Inr (jsonify_error (lit ''Missing 'file1' or 'file2' in request''), 400),
      w\<lparr>calls := calls w @ [GetBucket (BUCKET_NAME g), Exists PROMPT_FILE_PATH,
                              DownloadAsText PROMPT_FILE_PATH],
        stdout := stdout w @
          [[Txt (lit ''Loading prompt from GCS: '' @ PROMPT_FILE_PATH)],
           [Txt (lit ''Downloading file: '' @ PROMPT_FILE_PATH)],
           [Txt (lit ''Entering cleanup block...'')]]\<rparr>)"
  using assms
  by (simp add: handle_diff_request_external_prompt_def try_block_external_prompt_def
        except_block_clean_up_def finally_block_clean_up_def download_found io_defs Let_def)

text \<open>
  When both names can be printed, the response is the one that the \<open>try\<close> block and
  the \<open>except\<close> clause determined, whatever the deletions of the \<open>finally\<close> block do.
\<close>

lemma try_finally_returns:
  assumes "\<exists>w'. c (snd (m w)) = (Inr (), w')"
  shows "fst (try_finally m c w) = fst (m w)"
  using assms by (auto simp add: try_finally_def split: prod.splits)

lemma response_determined_before_cleanup:
  assumes "try_block_clean_up g req w = (tried, file1_name, file2_name)"
    and "encodable (Val file1_name)" "encodable (Val file2_name)"
  shows "fst (handle_diff_request_clean_up g req w) =
         fst (try_except (\<lambda>_. tried) except_block_clean_up w)"
  using assms
  by (simp add: handle_diff_request_clean_up_def try_finally_returns finally_block_returns)

lemma response_determined_before_cleanup_external_prompt:
  assumes "try_block_external_prompt g PROMPT_FILE_PATH req w = (tried, file1_name, file2_name)"
    and "encodable (Val file1_name)" "encodable (Val file2_name)"
  shows "fst (handle_diff_request_external_prompt g PROMPT_FILE_PATH req w) =
         fst (try_except (\<lambda>_. tried) except_block_clean_up w)"
  using assms
  by (simp add: handle_diff_request_external_prompt_def try_finally_returns finally_block_returns)

subsection \<open>agent.py on a missing object and on a missing name\<close>

text \<open>
  A request naming two objects of which at least one is not in the bucket: the handler of
  agent.py answers 404 with a message that names the first object that is missing, and
  the calls it makes are written out.
\<close>

lemma agent_py_missing_object_404:
  assumes "storage_client g = Some sc" "fault sc = (\<lambda>h c. None)" "BUCKET_NAME g \<noteq> []"
    and "get_json req = Inr (JObject d)"
    and "dict_get d (lit ''file1'') = JString n1" "n1 \<noteq> []"
    and "dict_get d (lit ''file2'') = JString n2" "n2 \<noteq> []"
    and "blobs w n1 = None \<or> blobs w n2 = None"
  shows "handle_diff_request g req w =
     (Inr (jsonify_error (lit ''File not found in bucket: '' @
             (if blobs w n1 = None then n1 else n2)), 404),
      w\<lparr>calls := calls w @
           (if blobs w n1 = None then [GetBucket (BUCKET_NAME g), Exists n1]
            else [GetBucket (BUCKET_NAME g), Exists n1, DownloadAsText n1,
                  GetBucket (BUCKET_NAME g), Exists n2]),
         stdout := stdout w @
           (if blobs w n1 = None then [] else [[Txt (lit ''Downloading file: '' @ n1)]])\<rparr>)"
proof (cases "blobs w n1")
  case None
  with assms show ?thesis
    by (simp add: handle_diff_request_def download_both_def download_missing io_defs)
next
  case (Some c1)
  with assms have n2: "blobs w n2 = None" by simp
  from Some n2 assms show ?thesis
    by (simp add: handle_diff_request_def download_both_def download_missing download_found io_defs)
qed

text \<open>
  A request in which \<open>file1\<close> or \<open>file2\<close> is missing or false: the handler of agent.py
  answers 400 and leaves the world as it was.
\<close>

lemma agent_py_missing_field_400:
  assumes "get_json req = Inr (JObject d)"
    and "\<not> truthy (dict_get d (lit ''file1'')) \<or> \<not> truthy (dict_get d (lit ''file2''))"
  shows "handle_diff_request g req w =
           (Inr (jsonify_error (lit ''Missing 'file1' or 'file2' in request''), 400), w)"
  using assms by (auto simp add: handle_diff_request_def io_defs)

subsection \<open>The solutions on a missing name, before their cleanup\<close>

lemma clean_up_try_block_400:
  assumes "get_json req = Inr (JObject d)"
    and "\<not> truthy (dict_get d (lit ''file1'')) \<or> \<not> truthy (dict_get d (lit ''file2''))"
  shows "try_block_clean_up g req w =
           ((Inr (jsonify_error (lit ''Missing 'file1' or 'file2' in request''), 400), w),
            dict_get d (lit ''file1''), dict_get d (lit ''file2''))"
  using assms by (auto simp add: try_block_clean_up_def io_defs)

lemma external_prompt_try_block_400:
  assumes "storage_client g = Some sc" "fault sc = (\<lambda>h c. None)" "BUCKET_NAME g \<noteq> []"
    and "blobs w PROMPT_FILE_PATH = Some prompt_template"
    and "get_json req = Inr (JObject d)"
    and "\<not> truthy (dict_get d (lit ''file1'')) \<or> \<not> truthy (dict_get d (lit ''file2''))"
  shows "try_block_external_prompt g PROMPT_FILE_PATH req w =
           ((Inr (jsonify_error (lit ''Missing 'file1' or 'file2' in request''), 400),
             w\<lparr>calls := calls w @ [GetBucket (BUCKET_NAME g), Exists PROMPT_FILE_PATH,
                                     DownloadAsText PROMPT_FILE_PATH],
               stdout := stdout w @
                 [[Txt (lit ''Loading prompt from GCS: '' @ PROMPT_FILE_PATH)],
                  [Txt (lit ''Downloading file: '' @ PROMPT_FILE_PATH)]]\<rparr>),
            dict_get d (lit ''file1''), dict_get d (lit ''file2''))"
  using assms
  by (auto simp add: try_block_external_prompt_def download_found io_defs)

text \<open>
  Without its prompt template in the bucket, the handler of
  solutions/agent\_external\_prompt.py answers 500 whatever the request.
\<close>

lemma external_prompt_missing_prompt_500:
  assumes "storage_client g = Some sc" "fault sc = (\<lambda>h c. None)" "BUCKET_NAME g \<noteq> []"
    and "blobs w PROMPT_FILE_PATH = None"
  shows "fst (handle_diff_request_external_prompt g PROMPT_FILE_PATH req w) =
           Inr (jsonify_error (lit ''Configuration error: Prompt template not found.''), 500)"
proof -
  have "\<exists>w1. try_block_external_prompt g PROMPT_FILE_PATH req w =
          ((Inr (jsonify_error (lit ''Configuration error: Prompt template not found.''), 500), w1),
           JNull, JNull)"
    using assms by (simp add: try_block_external_prompt_def download_missing io_defs)
  then obtain w1 where "try_block_external_prompt g PROMPT_FILE_PATH req w =
          ((Inr (jsonify_error (lit ''Configuration error: Prompt template not found.''), 500), w1),
           JNull, JNull)" ..
  then show ?thesis
    by (simp add: response_determined_before_cleanup_external_prompt try_except_def)
qed

subsection \<open>A name that cannot be printed\<close>

text \<open>
  The request gives as \<open>file1\<close> a text with a lone surrogate and gives no \<open>file2\<close>: the
  \<open>try\<close> block determines the 400 response. If the deletion of \<open>file1\<close> then raises,
  whatever the exception, the \<open>print\<close> of the \<open>except\<close> clause raises in its turn, and the
  handler ends with \<open>UnicodeEncodeError\<close> instead of the response.
\<close>

lemma clean_up_surrogate_name_raises:
  assumes "get_json req = Inr (JObject d)"
    and "dict_get d (lit ''file1'') = JString n1" "n1 \<noteq> []" "\<not> list_all (\<lambda>c. \<not> is_surrogate c) n1"
    and "\<not> truthy (dict_get d (lit ''file2''))"
    and "delete_file_from_gcs g (JString n1)
           (w\<lparr>stdout := stdout w @ [[Txt (lit ''Entering cleanup block...'')]]\<rparr>) = (Inl e, w')"
  shows "fst (try_block_clean_up g req w) =
           (Inr (jsonify_error (lit ''Missing 'file1' or 'file2' in request''), 400), w)
       \<and> handle_diff_request_clean_up g req w = (Inl UnicodeEncodeError, w')"
  using assms
  by (simp add: handle_diff_request_clean_up_def try_block_clean_up_def except_block_clean_up_def
        finally_block_clean_up_def io_defs Let_def)

subsection \<open>Failures of the delete calls when the names can be printed\<close>

text \<open>
  Two storage clients that differ only in how their delete calls fail behave alike until
  the cleanup.
\<close>

lemma send_cong:
  assumes "\<And>h c. \<not> is_delete c \<Longrightarrow> fault sc h c = fault sc' h c" "\<not> is_delete c"
  shows "send sc c = send sc' c"
  using assms by (simp add: send_def fun_eq_iff)

lemma download_cong:
  assumes "\<And>h c. \<not> is_delete c \<Longrightarrow> fault sc h c = fault sc' h c"
    and "storage_client g = Some sc"
  shows "download_file_from_gcs (g\<lparr>storage_client := Some sc'\<rparr>) n = download_file_from_gcs g n"
proof -
  have "get_bucket sc b = get_bucket sc' b" for b
    by (simp add: get_bucket_def send_cong [OF assms(1)])
  moreover have "blob_exists sc name = blob_exists sc' name" for name
    by (simp add: blob_exists_def send_cong [OF assms(1)])
  moreover have "blob_download_as_text sc name = blob_download_as_text sc' name" for name
    by (simp add: blob_download_as_text_def send_cong [OF assms(1)])
  ultimately show ?thesis
    using assms(2) by (simp add: download_file_from_gcs_def cong: if_cong json.case_cong)
qed

text \<open>
  When the names that the request gave can be printed, two runs whose storage clients
  differ only in the failures of their delete calls return the same response.
\<close>

lemma delete_failures_do_not_change_response:
  assumes "\<And>h c. \<not> is_delete c \<Longrightarrow> fault sc h c = fault sc' h c"
    and "storage_client g = Some sc"
    and "try_block_clean_up g req w = (tried, file1_name, file2_name)"
    and "encodable (Val file1_name)" "encodable (Val file2_name)"
  shows "fst (handle_diff_request_clean_up (g\<lparr>storage_client := Some sc'\<rparr>) req w) =
         fst (handle_diff_request_clean_up g req w)"
proof -
  have "download_file_from_gcs (g\<lparr>storage_client := Some sc'\<rparr>) n =
        download_file_from_gcs g n" for n
    using assms(1,2) by (intro download_cong [of sc sc']) simp_all
  then have "try_block_clean_up (g\<lparr>storage_client := Some sc'\<rparr>) req w =
             try_block_clean_up g req w"
    by (simp add: try_block_clean_up_def download_both_def get_gemini_diff_clean_up_def Let_def
          cong: if_cong json.case_cong sum.case_cong)
  with assms(3-5) show ?thesis
    by (simp add: response_determined_before_cleanup)
qed

section \<open>The claims\<close>

text \<open>
  C1. Two existing objects and a model call that throws: the handler returns 500 and
  both objects are deleted exactly once. The handler of agent.py does not do this. On the
  second scenario of test\_agent.py (file1.json and file2.json exist, \<open>generate_content\<close>
  raises) it returns 500 and stops there: the seven calls it makes are the two downloads
  and the model call, no object is deleted, and the test's
  \<open>delete.assert_called_once()\<close> would fail. The solution's handler does what the
  claim says (\<open>clean_up_model_failure_cleans\<close>).
\<close>

theorem agent_py_model_failure_no_cleanup:
  \<open>handle_diff_request
     (test_globals reliable_storage (model_returning (Inl (Exception (lit ''Gemini API Error'')))))
     test_request (test_world (lit ''{"a": 1}'') (lit ''{"b": 2}'')) =
   (Inr (jsonify_error (lit ''An internal server error occurred.''), 500),
    (test_world (lit ''{"a": 1}'') (lit ''{"b": 2}''))
      \<lparr>calls := [GetBucket (lit ''test-bucket''), Exists (lit ''file1.json''),
                 DownloadAsText (lit ''file1.json''),
                 GetBucket (lit ''test-bucket''), Exists (lit ''file2.json''),
                 DownloadAsText (lit ''file2.json''),
                 GenerateContent (prompt (lit ''{"a": 1}'') (lit ''{"b": 2}''))],
        stdout := [[Txt (lit ''Downloading file: '' @ lit ''file1.json'')],
                   [Txt (lit ''Downloading file: '' @ lit ''file2.json'')],
                   [Txt (lit ''Generating content with Gemini...'')],
                   [Txt (lit ''An unexpected error occurred: ''),
                    Err (Exception (lit ''Gemini API Error''))]]\<rparr>)\<close>
  by (simp add: handle_diff_request_def download_both_def download_file_from_gcs_def
        get_gemini_diff_def io_defs test_defs)

theorem agent_py_model_failure_no_cleanup_witness:
  \<open>fst (handle_diff_request
     (test_globals reliable_storage (model_returning (Inl (Exception (lit ''Gemini API Error'')))))
     test_request (test_world (lit ''{"a": 1}'') (lit ''{"b": 2}''))) =
     Inr (jsonify_error (lit ''An internal server error occurred.''), 500)
   \<and> filter is_delete (calls (snd (handle_diff_request
     (test_globals reliable_storage (model_returning (Inl (Exception (lit ''Gemini API Error'')))))
     test_request (test_world (lit ''{"a": 1}'') (lit ''{"b": 2}''))))) = []
   \<and> blobs (snd (handle_diff_request
     (test_globals reliable_storage (model_returning (Inl (Exception (lit ''Gemini API Error'')))))
     test_request (test_world (lit ''{"a": 1}'') (lit ''{"b": 2}'')))) (lit ''file1.json'')
       = Some (lit ''{"a": 1}'')
   \<and> blobs (snd (handle_diff_request
     (test_globals reliable_storage (model_returning (Inl (Exception (lit ''Gemini API Error'')))))
     test_request (test_world (lit ''{"a": 1}'') (lit ''{"b": 2}'')))) (lit ''file2.json'')
       = Some (lit ''{"b": 2}'')\<close>
  using agent_py_model_failure_no_cleanup by (simp add: test_world_def)

text \<open>
  C2. Two existing objects and a model response that is valid JSON: the handler returns
  200 with the parsed response under \<open>diff\<close>, and both objects are deleted exactly
  once. The handler of agent.py returns the parsed response and deletes nothing. On the
  first scenario of test\_agent.py it answers 200 with the parsed object; the calls it
  makes are the two downloads and the model call, and both objects stay in the bucket.
\<close>

theorem agent_py_success_no_cleanup:
  \<open>handle_diff_request
     (test_globals reliable_storage
        (model_returning (Inr (lit ''{"name": {"old": "Gil", "new": "Esti"}}''))))
     test_request (test_world (lit ''{"name": "Gil"}'') (lit ''{"name": "Esti"}'')) =
   (Inr (jsonify_diff (JObject [(lit ''name'',
           JObject [(lit ''old'', JString (lit ''Gil'')), (lit ''new'', JString (lit ''Esti''))])]),
         200),
    (test_world (lit ''{"name": "Gil"}'') (lit ''{"name": "Esti"}''))
      \<lparr>calls := [GetBucket (lit ''test-bucket''), Exists (lit ''file1.json''),
                 DownloadAsText (lit ''file1.json''),
                 GetBucket (lit ''test-bucket''), Exists (lit ''file2.json''),
                 DownloadAsText (lit ''file2.json''),
                 GenerateContent (prompt (lit ''{"name": "Gil"}'') (lit ''{"name": "Esti"}''))],
        stdout := [[Txt (lit ''Downloading file: '' @ lit ''file1.json'')],
                   [Txt (lit ''Downloading file: '' @ lit ''file2.json'')],
                   [Txt (lit ''Generating content with Gemini...'')],
                   [Txt (lit ''Clean Gemini response: '' @
                         lit ''{"name": {"old": "Gil", "new": "Esti"}}'')]]\<rparr>)\<close>
proof -
  have s: \<open>strip (lit ''{"name": {"old": "Gil", "new": "Esti"}}'') =
           lit ''{"name": {"old": "Gil", "new": "Esti"}}''\<close>
    by (rule strip_unchanged) (simp_all add: lit_def isspace_def)
  have p: \<open>\<not> prefix (lit ''```json'') (lit ''{"name": {"old": "Gil", "new": "Esti"}}'')\<close>
    by (simp add: lit_def)
  show ?thesis
    by (simp add: handle_diff_request_def download_both_def download_file_from_gcs_def
          get_gemini_diff_def io_defs test_defs s p test_loads_def Let_def)
qed

theorem agent_py_success_no_cleanup_witness:
  \<open>filter is_delete (calls (snd (handle_diff_request
     (test_globals reliable_storage
        (model_returning (Inr (lit ''{"name": {"old": "Gil", "new": "Esti"}}''))))
     test_request (test_world (lit ''{"name": "Gil"}'') (lit ''{"name": "Esti"}''))))) = []
   \<and> blobs (snd (handle_diff_request
     (test_globals reliable_storage
        (model_returning (Inr (lit ''{"name": {"old": "Gil", "new": "Esti"}}''))))
     test_request (test_world (lit ''{"name": "Gil"}'') (lit ''{"name": "Esti"}''))))
       (lit ''file1.json'') = Some (lit ''{"name": "Gil"}'')
   \<and> blobs (snd (handle_diff_request
     (test_globals reliable_storage
        (model_returning (Inr (lit ''{"name": {"old": "Gil", "new": "Esti"}}''))))
     test_request (test_world (lit ''{"name": "Gil"}'') (lit ''{"name": "Esti"}''))))
       (lit ''file2.json'') = Some (lit ''{"name": "Esti"}'')\<close>
  using agent_py_success_no_cleanup by (simp add: test_world_def)

text \<open>
  C3. A request naming two objects of which at least one is not in the bucket: the
  handler answers 404 with a message that names the missing object, and attempts no
  deletion. The handler of solutions/agent\_clean\_up.py does not do this. With
  missing.json absent and file2.json in the bucket it answers 404 naming missing.json,
  and its \<open>finally\<close> block then asks for both objects again and deletes file2.json,
  although its own comment (line 138) says that cleanup happens only if the files were
  downloaded. The handler of agent.py answers the same 404 and deletes nothing
  (\<open>agent_py_missing_object_404\<close>), as it never deletes anything
  (\<open>agent_py_never_deletes\<close>).
\<close>

theorem clean_up_404_deletes_other_object:
  "handle_diff_request_clean_up
     (test_globals reliable_storage (model_returning (Inr (lit ''{}''))))
     missing_request (test_world (lit ''1'') (lit ''2'')) =
   (Inr (jsonify_error (lit ''File not found in bucket: '' @ lit ''missing.json''), 404),
    (test_world (lit ''1'') (lit ''2''))
      \<lparr>blobs := (blobs (test_world (lit ''1'') (lit ''2'')))(lit ''file2.json'' := None),
        calls := [GetBucket (lit ''test-bucket''), Exists (lit ''missing.json''),
                  GetBucket (lit ''test-bucket''), Exists (lit ''missing.json''),
                  GetBucket (lit ''test-bucket''), Exists (lit ''file2.json''),
                  Delete (lit ''file2.json'')],
        stdout := [[Txt (lit ''Entering cleanup block...'')],
                   [Txt (lit ''Warning: File already deleted or never existed: '' @
                         lit ''missing.json'')],
                   [Txt (lit ''Cleaning up file: '' @ lit ''file2.json'')]]\<rparr>)"
  using clean_up_404_still_deletes
      [of "test_globals reliable_storage (model_returning (Inr (lit ''{}'')))" reliable_storage
          missing_request
          "[(lit ''file1'', JString (lit ''missing.json'')), (lit ''file2'', JString (lit ''file2.json''))]"
          "lit ''missing.json''" "lit ''file2.json''" "test_world (lit ''1'') (lit ''2'')" "lit ''2''"]
  by (simp add: test_defs missing_request_def)

theorem clean_up_404_deletes_other_object_witness:
  "fst (handle_diff_request_clean_up
     (test_globals reliable_storage (model_returning (Inr (lit ''{}''))))
     missing_request (test_world (lit ''1'') (lit ''2''))) =
     Inr (jsonify_error (lit ''File not found in bucket: '' @ lit ''missing.json''), 404)
   \<and> filter is_delete (calls (snd (handle_diff_request_clean_up
     (test_globals reliable_storage (model_returning (Inr (lit ''{}''))))
     missing_request (test_world (lit ''1'') (lit ''2''))))) = [Delete (lit ''file2.json'')]
   \<and> blobs (test_world (lit ''1'') (lit ''2'')) (lit ''file2.json'') = Some (lit ''2'')
   \<and> blobs (snd (handle_diff_request_clean_up
     (test_globals reliable_storage (model_returning (Inr (lit ''{}''))))
     missing_request (test_world (lit ''1'') (lit ''2'')))) (lit ''file2.json'') = None"
  using clean_up_404_deletes_other_object by (simp add: test_world_def)

text \<open>
  C4. A request whose body is a JSON object in which \<open>file1\<close> or \<open>file2\<close> is missing
  or empty (more generally: false in Python's sense) is answered with 400, with no call
  to the blob store and no call to the model. The handler of
  solutions/agent\_external\_prompt.py downloads its prompt template from the bucket
  before it reads the request, so it has called the blob store by the time it answers
  400. What holds is this. The handler of agent.py answers 400 and leaves the world as it
  was. In the two solutions the \<open>try\<close> block determines the 400 response; that of
  solutions/agent\_clean\_up.py has made no call by then, and that of
  solutions/agent\_external\_prompt.py, once its prompt template is downloaded, has made
  no other call. When the names that the request gave can be printed, this 400 is the
  response of the two handlers. What the \<open>finally\<close> block of the solutions does with the
  bucket after that is not stated here.
\<close>

theorem missing_field_400:
  assumes "get_json req = Inr (JObject d)"
    and "\<not> truthy (dict_get d (lit ''file1'')) \<or> \<not> truthy (dict_get d (lit ''file2''))"
  shows "handle_diff_request g req w =
           (Inr (jsonify_error (lit ''Missing 'file1' or 'file2' in request''), 400), w)
       \<and> try_block_clean_up g req w =
           ((Inr (jsonify_error (lit ''Missing 'file1' or 'file2' in request''), 400), w),
            dict_get d (lit ''file1''), dict_get d (lit ''file2''))
       \<and> (storage_client g = Some sc \<and> fault sc = (\<lambda>h c. None) \<and> BUCKET_NAME g \<noteq> [] \<and>
          blobs w PROMPT_FILE_PATH = Some prompt_template \<longrightarrow>
            try_block_external_prompt g PROMPT_FILE_PATH req w =
              ((Inr (jsonify_error (lit ''Missing 'file1' or 'file2' in request''), 400),
                w\<lparr>calls := calls w @ [GetBucket (BUCKET_NAME g), Exists PROMPT_FILE_PATH,
                                        DownloadAsText PROMPT_FILE_PATH],
                  stdout := stdout w @
                    [[Txt (lit ''Loading prompt from GCS: '' @ PROMPT_FILE_PATH)],
                     [Txt (lit ''Downloading file: '' @ PROMPT_FILE_PATH)]]\<rparr>),
               dict_get d (lit ''file1''), dict_get d (lit ''file2'')))
       \<and> (encodable (Val (dict_get d (lit ''file1''))) \<and>
          encodable (Val (dict_get d (lit ''file2''))) \<longrightarrow>
            fst (handle_diff_request_clean_up g req w) =
              Inr (jsonify_error (lit ''Missing 'file1' or 'file2' in request''), 400)
            \<and> (storage_client g = Some sc \<and> fault sc = (\<lambda>h c. None) \<and> BUCKET_NAME g \<noteq> [] \<and>
               blobs w PROMPT_FILE_PATH = Some prompt_template \<longrightarrow>
                 fst (handle_diff_request_external_prompt g PROMPT_FILE_PATH req w) =
                   Inr (jsonify_error (lit ''Missing 'file1' or 'file2' in request''), 400)))"
proof (intro conjI impI)
  show "handle_diff_request g req w =
           (Inr (jsonify_error (lit ''Missing 'file1' or 'file2' in request''), 400), w)"
    using assms by (rule agent_py_missing_field_400)
next
  show "try_block_clean_up g req w =
           ((Inr (jsonify_error (lit ''Missing 'file1' or 'file2' in request''), 400), w),
            dict_get d (lit ''file1''), dict_get d (lit ''file2''))"
    using assms by (rule clean_up_try_block_400)
next
  assume "storage_client g = Some sc \<and> fault sc = (\<lambda>h c. None) \<and> BUCKET_NAME g \<noteq> [] \<and>
          blobs w PROMPT_FILE_PATH = Some prompt_template"
  with assms show "try_block_external_prompt g PROMPT_FILE_PATH req w =
              ((Inr (jsonify_error (lit ''Missing 'file1' or 'file2' in request''), 400),
                w\<lparr>calls := calls w @ [GetBucket (BUCKET_NAME g), Exists PROMPT_FILE_PATH,
                                        DownloadAsText PROMPT_FILE_PATH],
                  stdout := stdout w @
                    [[Txt (lit ''Loading prompt from GCS: '' @ PROMPT_FILE_PATH)],
                     [Txt (lit ''Downloading file: '' @ PROMPT_FILE_PATH)]]\<rparr>),
               dict_get d (lit ''file1''), dict_get d (lit ''file2''))"
    by (intro external_prompt_try_block_400 [of g sc w PROMPT_FILE_PATH prompt_template]) simp_all
next
  assume e: "encodable (Val (dict_get d (lit ''file1''))) \<and>
             encodable (Val (dict_get d (lit ''file2'')))"
  from assms have "try_block_clean_up g req w =
           ((Inr (jsonify_error (lit ''Missing 'file1' or 'file2' in request''), 400), w),
            dict_get d (lit ''file1''), dict_get d (lit ''file2''))"
    by (rule clean_up_try_block_400)
  with e show "fst (handle_diff_request_clean_up g req w) =
              Inr (jsonify_error (lit ''Missing 'file1' or 'file2' in request''), 400)"
    by (simp add: response_determined_before_cleanup try_except_def)
next
  assume e: "encodable (Val (dict_get d (lit ''file1''))) \<and>
             encodable (Val (dict_get d (lit ''file2'')))"
    and s: "storage_client g = Some sc \<and> fault sc = (\<lambda>h c. None) \<and> BUCKET_NAME g \<noteq> [] \<and>
          blobs w PROMPT_FILE_PATH = Some prompt_template"
  from s assms have "try_block_external_prompt g PROMPT_FILE_PATH req w =
              ((Inr (jsonify_error (lit ''Missing 'file1' or 'file2' in request''), 400),
                w\<lparr>calls := calls w @ [GetBucket (BUCKET_NAME g), Exists PROMPT_FILE_PATH,
                                        DownloadAsText PROMPT_FILE_PATH],
                  stdout := stdout w @
                    [[Txt (lit ''Loading prompt from GCS: '' @ PROMPT_FILE_PATH)],
                     [Txt (lit ''Downloading file: '' @ PROMPT_FILE_PATH)]]\<rparr>),
               dict_get d (lit ''file1''), dict_get d (lit ''file2''))"
    by (intro external_prompt_try_block_400 [of g sc w PROMPT_FILE_PATH prompt_template]) simp_all
  with e show "fst (handle_diff_request_external_prompt g PROMPT_FILE_PATH req w) =
                   Inr (jsonify_error (lit ''Missing 'file1' or 'file2' in request''), 400)"
    by (simp add: response_determined_before_cleanup_external_prompt try_except_def)
qed

theorem missing_field_400_witness:
  "handle_diff_request (test_globals reliable_storage (model_returning (Inr (lit ''{}''))))
     incomplete_request prompt_world =
   (Inr (jsonify_error (lit ''Missing 'file1' or 'file2' in request''), 400), prompt_world)
   \<and> try_block_external_prompt (test_globals reliable_storage (model_returning (Inr (lit ''{}''))))
       (lit ''external_prompt.txt'') incomplete_request prompt_world =
     ((Inr (jsonify_error (lit ''Missing 'file1' or 'file2' in request''), 400),
       prompt_world\<lparr>calls := [GetBucket (lit ''test-bucket''), Exists (lit ''external_prompt.txt''),
                               DownloadAsText (lit ''external_prompt.txt'')],
                     stdout := [[Txt (lit ''Loading prompt from GCS: '' @ lit ''external_prompt.txt'')],
                                [Txt (lit ''Downloading file: '' @ lit ''external_prompt.txt'')]]\<rparr>),
      JString (lit ''file1.json''), JNull)
   \<and> fst (handle_diff_request_external_prompt
            (test_globals reliable_storage (model_returning (Inr (lit ''{}''))))
            (lit ''external_prompt.txt'') incomplete_request prompt_world) =
     Inr (jsonify_error (lit ''Missing 'file1' or 'file2' in request''), 400)"
  using missing_field_400 [of incomplete_request "[(lit ''file1'', JString (lit ''file1.json''))]"
      "test_globals reliable_storage (model_returning (Inr (lit ''{}'')))" prompt_world
      reliable_storage "lit ''external_prompt.txt''" "lit ''Compare the two files.''"]
  by (simp add: incomplete_request_def test_defs prompt_world_def lit_def is_surrogate_def)

theorem missing_field_400_counterexample:
  "fst (handle_diff_request_external_prompt
          (test_globals reliable_storage (model_returning (Inr (lit ''{}''))))
          (lit ''external_prompt.txt'') empty_request prompt_world) =
     Inr (jsonify_error (lit ''Missing 'file1' or 'file2' in request''), 400)
   \<and> calls (snd (handle_diff_request_external_prompt
          (test_globals reliable_storage (model_returning (Inr (lit ''{}''))))
          (lit ''external_prompt.txt'') empty_request prompt_world)) =
     [GetBucket (lit ''test-bucket''), Exists (lit ''external_prompt.txt''),
      DownloadAsText (lit ''external_prompt.txt'')]"
  using external_prompt_400_after_download
      [of "test_globals reliable_storage (model_returning (Inr (lit ''{}'')))" reliable_storage
          prompt_world "lit ''external_prompt.txt''" "lit ''Compare the two files.''"
          empty_request "[]"]
  by (simp add: empty_request_def test_defs prompt_world_def)

text \<open>
  C5. Both objects exist and the text of the model's response, stripped of white space
  and of its fence, is not valid JSON: the handler answers 500, not 200 with the text.
  The handler of solutions/agent\_clean\_up.py does not parse the text: it answers 200
  with the text as a string, whatever the text. The handler of agent.py answers as
  \<open>json.loads\<close> decides: 500 with the generic message when \<open>json.loads\<close> raises, 200
  with the value when it returns one, and it returns one for \<open>NaN\<close>, which is not valid
  JSON.
\<close>

theorem unparsable_diff_500:
  assumes "storage_client g = Some sc" "fault sc = (\<lambda>h c. None)" "BUCKET_NAME g \<noteq> []"
    and "get_json req = Inr (JObject d)"
    and "dict_get d (lit ''file1'') = JString n1" "n1 \<noteq> []"
    and "dict_get d (lit ''file2'') = JString n2" "n2 \<noteq> []"
    and "blobs w n1 = Some c1" "blobs w n2 = Some c2"
    and "gemini_model g = Some gm" "generate_content gm (prompt c1 c2) = Inr R"
    and "T = (if prefix (lit ''```json'') (strip R)
              then strip (slice_7_minus_3 (strip R)) else strip R)"
  shows "(json_loads g T = None \<longrightarrow>
            fst (handle_diff_request g req w) =
              Inr (jsonify_error (lit ''An internal server error occurred.''), 500))
       \<and> (\<forall>v. json_loads g T = Some v \<longrightarrow>
            fst (handle_diff_request g req w) = Inr (jsonify_diff v, 200))
       \<and> fst (handle_diff_request_clean_up g req w) = Inr (jsonify_diff (JString T), 200)"
proof (intro conjI impI allI)
  assume "json_loads g T = None"
  with assms show "fst (handle_diff_request g req w) =
              Inr (jsonify_error (lit ''An internal server error occurred.''), 500)"
    by (simp add: handle_diff_request_def download_both_def download_found get_gemini_diff_def
          io_defs Let_def)
next
  fix v assume "json_loads g T = Some v"
  with assms show "fst (handle_diff_request g req w) = Inr (jsonify_diff v, 200)"
    by (simp add: handle_diff_request_def download_both_def download_found get_gemini_diff_def
          io_defs Let_def)
next
  show "fst (handle_diff_request_clean_up g req w) = Inr (jsonify_diff (JString T), 200)"
  proof (cases "n1 = n2")
    case False
    with assms show ?thesis by (simp add: clean_up_success_returns_text)
  next
    case True
    with assms show ?thesis
      by (simp add: handle_diff_request_clean_up_def try_block_clean_up_def
            except_block_clean_up_def finally_block_clean_up_def download_both_def download_found
            delete_found delete_missing get_gemini_diff_clean_up_def io_defs Let_def)
  qed
qed

theorem unparsable_diff_500_witness:
  "fst (handle_diff_request
          (test_globals reliable_storage (model_returning (Inr (lit ''The files are alike.''))))
          test_request (test_world (lit ''1'') (lit ''2''))) =
     Inr (jsonify_error (lit ''An internal server error occurred.''), 500)
   \<and> fst (handle_diff_request_clean_up
          (test_globals reliable_storage (model_returning (Inr (lit ''The files are alike.''))))
          test_request (test_world (lit ''1'') (lit ''2''))) =
     Inr (jsonify_diff (JString (lit ''The files are alike.'')), 200)"
  using unparsable_diff_500
      [of "test_globals reliable_storage (model_returning (Inr (lit ''The files are alike.'')))"
          reliable_storage test_request
          "[(lit ''file1'', JString (lit ''file1.json'')), (lit ''file2'', JString (lit ''file2.json''))]"
          "lit ''file1.json''" "lit ''file2.json''" "test_world (lit ''1'') (lit ''2'')"
          "lit ''1''" "lit ''2''" "model_returning (Inr (lit ''The files are alike.''))"
          "lit ''The files are alike.''" "lit ''The files are alike.''"]
  by (simp add: test_defs test_loads_def strip_unchanged lit_def isspace_def)

theorem unparsable_diff_counterexample:
  "test_loads (lit ''no diff'') = None
   \<and> fst (handle_diff_request_clean_up
          (test_globals reliable_storage (model_returning (Inr (lit ''no diff''))))
          test_request (test_world (lit ''1'') (lit ''2''))) =
     Inr (jsonify_diff (JString (lit ''no diff'')), 200)
   \<and> fst (handle_diff_request
          (test_globals reliable_storage (model_returning (Inr (lit ''NaN''))))
          test_request (test_world (lit ''1'') (lit ''2''))) =
     Inr (jsonify_diff (JNonFinite NaN), 200)"
proof -
  have a: "strip (lit ''no diff'') = lit ''no diff''"
    by (rule strip_unchanged) (simp_all add: lit_def isspace_def)
  have b: "strip (lit ''NaN'') = lit ''NaN''"
    by (rule strip_unchanged) (simp_all add: lit_def isspace_def)
  have c: "\<not> prefix (lit ''```json'') (lit ''no diff'')" "\<not> prefix (lit ''```json'') (lit ''NaN'')"
    by (simp_all add: lit_def)
  have "test_loads (lit ''no diff'') = None"
    by (simp add: test_loads_def)
  moreover have "fst (handle_diff_request_clean_up
          (test_globals reliable_storage (model_returning (Inr (lit ''no diff''))))
          test_request (test_world (lit ''1'') (lit ''2''))) =
     Inr (jsonify_diff (JString (lit ''no diff'')), 200)"
    by (simp add: handle_diff_request_clean_up_def try_block_clean_up_def
          except_block_clean_up_def finally_block_clean_up_def download_both_def
          download_file_from_gcs_def delete_file_from_gcs_def
          get_gemini_diff_clean_up_def io_defs test_defs a c Let_def)
  moreover have "fst (handle_diff_request
          (test_globals reliable_storage (model_returning (Inr (lit ''NaN''))))
          test_request (test_world (lit ''1'') (lit ''2''))) =
     Inr (jsonify_diff (JNonFinite NaN), 200)"
    by (simp add: handle_diff_request_def download_both_def download_file_from_gcs_def
          get_gemini_diff_def io_defs test_defs b c test_loads_def Let_def)
  ultimately show ?thesis by simp
qed

text \<open>
  C6. The diff from a response \<open>R\<close> wrapped in a fence marked as JSON equals the diff
  from \<open>R\<close> itself. This fails for an \<open>R\<close> that is itself fenced: alone it loses its
  fence, wrapped it keeps it (\<open>fenced_response_differs\<close>). For every \<open>R\<close> whose stripped
  text does not start with the fence marker, both diffs are the stripped \<open>R\<close>.
\<close>

theorem fenced_response_same_diff:
  assumes "gemini_model g = Some gm" "generate_content gm (prompt c1 c2) = Inr R"
    and "gemini_model g' = Some gm'"
    and "generate_content gm' (prompt c1 c2) = Inr (lit ''```json'' @ R @ lit ''```'')"
    and "\<not> prefix (lit ''```json'') (strip R)"
  shows "fst (get_gemini_diff g' c1 c2 w) = fst (get_gemini_diff g c1 c2 w)
       \<and> fst (get_gemini_diff g c1 c2 w) = Inr (strip R)"
  using assms by (simp add: get_gemini_diff_returns strip_fenced slice_fenced)

theorem fenced_response_same_diff_witness:
  "fst (get_gemini_diff (test_globals reliable_storage
          (model_returning (Inr (lit ''```json'' @ lit ''{}'' @ lit ''```'')))) (lit ''1'') (lit ''2'')
          (test_world (lit ''1'') (lit ''2''))) = Inr (lit ''{}'')
   \<and> fst (get_gemini_diff (test_globals reliable_storage (model_returning (Inr (lit ''{}''))))
          (lit ''1'') (lit ''2'') (test_world (lit ''1'') (lit ''2''))) = Inr (lit ''{}'')"
  using fenced_response_same_diff [of "test_globals reliable_storage (model_returning (Inr (lit ''{}'')))"
      "model_returning (Inr (lit ''{}''))" "lit ''1''" "lit ''2''" "lit ''{}''"
      "test_globals reliable_storage (model_returning (Inr (lit ''```json'' @ lit ''{}'' @ lit ''```'')))"
      "model_returning (Inr (lit ''```json'' @ lit ''{}'' @ lit ''```''))"
      "test_world (lit ''1'') (lit ''2'')"]
  by (simp add: test_defs strip_unchanged lit_def isspace_def)

theorem fenced_response_counterexample:
  "fst (get_gemini_diff (test_globals reliable_storage
          (model_returning (Inr (lit ''```json'' @ lit ''```json{}```'' @ lit ''```''))))
          (lit ''1'') (lit ''2'') (test_world (lit ''1'') (lit ''2''))) = Inr (lit ''```json{}```'')
   \<and> fst (get_gemini_diff (test_globals reliable_storage
          (model_returning (Inr (lit ''```json{}```''))))
          (lit ''1'') (lit ''2'') (test_world (lit ''1'') (lit ''2''))) = Inr (lit ''{}'')
   \<and> lit ''```json{}```'' \<noteq> lit ''{}''"
proof -
  have a: "strip (lit ''```json{}```'') = lit ''```json{}```''"
    by (rule strip_unchanged) (simp_all add: lit_def isspace_def)
  have b: "strip (lit ''{}'') = lit ''{}''"
    by (rule strip_unchanged) (simp_all add: lit_def isspace_def)
  have c: "slice_7_minus_3 (lit ''```json{}```'') = lit ''{}''"
    by (simp add: slice_7_minus_3_def lit_def)
  have d: "prefix (lit ''```json'') (lit ''```json{}```'')"
    by (simp add: lit_def)
  show ?thesis
    by (simp add: get_gemini_diff_returns test_defs strip_fenced slice_fenced a b c d)
qed

text \<open>
  C7. A failure thrown while the cleanup deletes the objects never changes the response
  that was determined before. The handler of solutions/agent\_clean\_up.py catches the
  failure in order to log it (line 146: the request is not to fail if cleanup fails), but
  the line it logs holds the names as the request gave them, and \<open>print\<close> raises on a
  name that is a lone surrogate. For the body that gives such a name as \<open>file1\<close> and no
  \<open>file2\<close>, the \<open>try\<close> block determines the 400 response without any call; with the
  storage service unavailable the deletion of \<open>file1\<close> raises at \<open>get_bucket\<close>, the
  \<open>print\<close> of the \<open>except\<close> clause raises \<open>UnicodeEncodeError\<close>, and the handler ends
  with that exception instead of the 400 response. Any other failure of that deletion
  has the same effect (\<open>clean_up_surrogate_name_raises\<close>). With names that can be
  printed the response is the one determined before the cleanup
  (\<open>response_determined_before_cleanup\<close>, \<open>delete_failures_do_not_change_response\<close>).
\<close>

theorem cleanup_failure_replaces_response:
  "fst (try_block_clean_up
          (test_globals unavailable_storage (model_returning (Inr (lit ''{}''))))
          surrogate_request (test_world (lit ''1'') (lit ''2''))) =
     (Inr (jsonify_error (lit ''Missing 'file1' or 'file2' in request''), 400),
      test_world (lit ''1'') (lit ''2''))
   \<and> handle_diff_request_clean_up
       (test_globals unavailable_storage (model_returning (Inr (lit ''{}''))))
       surrogate_request (test_world (lit ''1'') (lit ''2'')) =
     (Inl UnicodeEncodeError,
      (test_world (lit ''1'') (lit ''2''))
        \<lparr>calls := [GetBucket (lit ''test-bucket'')],
          stdout := [[Txt (lit ''Entering cleanup block...'')]]\<rparr>)"
  by (simp add: handle_diff_request_clean_up_def try_block_clean_up_def
        except_block_clean_up_def finally_block_clean_up_def delete_file_from_gcs_def
        io_defs test_defs surrogate_request_def is_surrogate_def Let_def)

theorem cleanup_failure_replaces_response_witness:
  "fst (handle_diff_request_clean_up
       (test_globals unavailable_storage (model_returning (Inr (lit ''{}''))))
       surrogate_request (test_world (lit ''1'') (lit ''2''))) = Inl UnicodeEncodeError
   \<and> fst (fst (try_block_clean_up
          (test_globals unavailable_storage (model_returning (Inr (lit ''{}''))))
          surrogate_request (test_world (lit ''1'') (lit ''2'')))) =
     Inr (jsonify_error (lit ''Missing 'file1' or 'file2' in request''), 400)"
  using cleanup_failure_replaces_response by simp

text \<open>
  C8. When one of the three constructions of the module initialization fails, both
  client handles are \<open>None\<close>; then \<open>download_file_from_gcs\<close>, \<open>delete_file_from_gcs\<close>
  and \<open>get_gemini_diff\<close> raise their "not configured" exception and leave the world as it
  was (no client is called), and a request that names both files is answered with the
  generic 500, with no call made.
\<close>

theorem unset_clients_fail_fast:
  assumes "(\<exists>e. storage_Client = Inl e) \<or> (\<exists>e. vertexai_init = Inl e) \<or>
           (\<exists>e. GenerativeModel = Inl e)"
    and "fst (init_clients storage_Client vertexai_init GenerativeModel w0) = Inr (sc, gm)"
    and "storage_client g = sc" "gemini_model g = gm"
  shows "sc = None \<and> gm = None
       \<and> download_file_from_gcs g n w =
           (Inl (Exception (lit ''Storage client or bucket name not configured.'')), w)
       \<and> delete_file_from_gcs g n w =
           (Inl (Exception (lit ''Storage client or bucket name not configured.'')), w)
       \<and> get_gemini_diff g c1 c2 w = (Inl (Exception (lit ''Gemini model not initialized.'')), w)
       \<and> (get_json req = Inr (JObject d) \<and> truthy (dict_get d (lit ''file1''))
            \<and> truthy (dict_get d (lit ''file2'')) \<longrightarrow>
           fst (handle_diff_request g req w) =
             Inr (jsonify_error (lit ''An internal server error occurred.''), 500)
           \<and> calls (snd (handle_diff_request g req w)) = calls w)"
proof -
  from assms(1,2) have u: "sc = None \<and> gm = None"
    by (cases storage_Client; cases vertexai_init; cases GenerativeModel)
       (auto simp add: init_clients_def io_defs)
  with assms(3,4) have g: "storage_client g = None" "gemini_model g = None" by simp_all
  have d: "download_file_from_gcs g n w =
           (Inl (Exception (lit ''Storage client or bucket name not configured.'')), w)" for n w
    using g by (simp add: download_file_from_gcs_def raise_def)
  have x: "delete_file_from_gcs g n w =
           (Inl (Exception (lit ''Storage client or bucket name not configured.'')), w)"
    using g by (simp add: delete_file_from_gcs_def raise_def)
  have m: "get_gemini_diff g c1 c2 w = (Inl (Exception (lit ''Gemini model not initialized.'')), w)"
    using g by (simp add: get_gemini_diff_def raise_def)
  have h: "fst (handle_diff_request g req w) =
             Inr (jsonify_error (lit ''An internal server error occurred.''), 500)
           \<and> calls (snd (handle_diff_request g req w)) = calls w"
    if "get_json req = Inr (JObject d)" "truthy (dict_get d (lit ''file1''))"
       "truthy (dict_get d (lit ''file2''))"
    using that by (simp add: handle_diff_request_def download_both_def d io_defs)
  from u d x m h show ?thesis by blast
qed

theorem unset_clients_fail_fast_witness:
  "init_clients (Inl (ServiceError (lit ''DefaultCredentialsError''))) (Inr ())
     (Inr (model_returning (Inr (lit ''{}'')))) (test_world (lit ''1'') (lit ''2'')) =
     (Inr (None, None), (test_world (lit ''1'') (lit ''2''))
        \<lparr>stdout := [[Txt (lit ''ERROR: Failed to initialize Google Cloud clients: ''),
                     Err (ServiceError (lit ''DefaultCredentialsError''))]]\<rparr>)
   \<and> fst (handle_diff_request
     \<lparr>storage_client = None, gemini_model = None, BUCKET_NAME = lit ''test-bucket'',
      json_loads = test_loads\<rparr> test_request (test_world (lit ''1'') (lit ''2''))) =
     Inr (jsonify_error (lit ''An internal server error occurred.''), 500)"
  using unset_clients_fail_fast [of "Inl (ServiceError (lit ''DefaultCredentialsError''))"
      "Inr ()" "Inr (model_returning (Inr (lit ''{}'')))"
      "test_world (lit ''1'') (lit ''2'')" None None
      "\<lparr>storage_client = None, gemini_model = None, BUCKET_NAME = lit ''test-bucket'',
        json_loads = test_loads\<rparr>" "JString (lit ''file1.json'')"
      "test_world (lit ''1'') (lit ''2'')" "lit ''1''" "lit ''2''" test_request
      "[(lit ''file1'', JString (lit ''file1.json'')), (lit ''file2'', JString (lit ''file2.json''))]"]
  by (simp add: init_clients_def io_defs test_defs)



text \<open>
  C10. A POST whose body is absent or is not JSON (\<open>request.get_json()\<close> raises), or is
  JSON but not an object (\<open>data.get\<close> raises): the handler answers 500 with the generic
  message, not 400, and calls neither the blob store nor the model.
\<close>

theorem not_an_object_500:
  assumes "(\<exists>e. get_json req = Inl e) \<or> (\<exists>v. get_json req = Inr v \<and> (\<forall>d. v \<noteq> JObject d))"
  shows "fst (handle_diff_request g req w) =
           Inr (jsonify_error (lit ''An internal server error occurred.''), 500)
       \<and> calls (snd (handle_diff_request g req w)) = calls w
       \<and> blobs (snd (handle_diff_request g req w)) = blobs w"
  using assms by (auto simp add: handle_diff_request_def io_defs split: json.splits)

theorem not_an_object_500_witness:
  "fst (handle_diff_request (test_globals reliable_storage (model_returning (Inr (lit ''{}''))))
     list_request (test_world (lit ''1'') (lit ''2''))) =
     Inr (jsonify_error (lit ''An internal server error occurred.''), 500)
   \<and> calls (snd (handle_diff_request (test_globals reliable_storage (model_returning (Inr (lit ''{}''))))
     list_request (test_world (lit ''1'') (lit ''2'')))) = []"
  using not_an_object_500 [of list_request
      "test_globals reliable_storage (model_returning (Inr (lit ''{}'')))"
      "test_world (lit ''1'') (lit ''2'')"]
  by (simp add: list_request_def test_world_def)

end
